theory Spec2Isabelle
  imports Complex_Main "HOL-Library.Sublist"
begin

section \<open>Adaptive layout engine (dashboard.py, calc\_layout)\<close>

text \<open>
  Python integers are unbounded, so widths and counts are \<open>int\<close>. Python's \<open>//\<close> is floor
  division, which is what \<open>div\<close> on \<open>int\<close> computes.
\<close>

definition TOP_N_CONTENDERS :: int where
  "TOP_N_CONTENDERS = 5"

definition PRICE_W :: int where
  "PRICE_W = 5"

definition DELTA_W :: int where
  "DELTA_W = 7"

definition FIXED_COLS_W :: int where
  "FIXED_COLS_W = 3 + 35 + 9 + 8"

definition MIN_NAME_W :: int where
  "MIN_NAME_W = 8"

definition EVENT_W :: int where
  "EVENT_W = 35"

text \<open>The nested helper \<open>total_width(n, name_w)\<close>.\<close>

definition total_width :: "int \<Rightarrow> int \<Rightarrow> int" where
  "total_width n name_w =
     (let seps = 3 + n * 3
      in FIXED_COLS_W + n * (name_w + PRICE_W + DELTA_W) + seps + 2)"

text \<open>\<open>range(a, 0, -1)\<close>: the integers \<open>a, a - 1, ..., 1\<close>.\<close>

definition range_down :: "int \<Rightarrow> int list" where
  "range_down a = rev [1..a]"

text \<open>
  The \<open>for k in range(...)\<close> loop with its \<open>break\<close>: the first \<open>k\<close> of the list that fits,
  and the initial value \<open>n = 0\<close> when the loop runs to its end.
\<close>

fun first_fit :: "int list \<Rightarrow> int \<Rightarrow> int" where
  "first_fit [] width = 0"
| "first_fit (k # ks) width =
     (if total_width k MIN_NAME_W \<le> width then k else first_fit ks width)"

definition calc_layout :: "int \<Rightarrow> int \<times> int \<times> int" where
  "calc_layout width =
     (let n0 = first_fit (range_down TOP_N_CONTENDERS) width;
          n = (if n0 = 0 then 1 else n0);
          leftover = width - total_width n MIN_NAME_W;
          name_w = MIN_NAME_W + leftover div n
      in (n, name_w, EVENT_W))"


section \<open>Python values\<close>

text \<open>
  A Python \<open>str\<close> is a sequence of code points, and \<open>len\<close> counts code points; the
  dashboard prints symbols beyond ASCII, so a string is a list of code points here.
  \<open>lit\<close> embeds an ASCII literal.
\<close>

type_synonym ustr = "nat list"

definition lit :: "string \<Rightarrow> ustr" where
  "lit s = map of_char s"

definition EM_DASH :: ustr where
  "EM_DASH = [8212]"

definition UP_ARROW :: ustr where
  "UP_ARROW = [9650]"

definition DOWN_ARROW :: ustr where
  "DOWN_ARROW = [9660]"

definition CENT :: ustr where
  "CENT = [162]"

definition ELLIPSIS :: ustr where
  "ELLIPSIS = [8230]"

text \<open>
  The exceptions the two modules can meet. \<open>JSONDecodeError\<close> is a subclass of
  \<open>ValueError\<close>; an \<open>except\<close> clause catches an exception of a listed class or of a
  subclass of one.
\<close>

datatype py_error =
  TypeError | ValueError | JSONDecodeError | IndexError | KeyError | AttributeError | OSError

fun is_a :: "py_error \<Rightarrow> py_error \<Rightarrow> bool" where
  "is_a JSONDecodeError ValueError = True"
| "is_a e c = (e = c)"

definition caught :: "py_error list \<Rightarrow> py_error \<Rightarrow> bool" where
  "caught classes e = list_ex (is_a e) classes"

text \<open>Sequencing of computations that may raise: the first exception ends the run.\<close>

definition bnd :: "py_error + 'a \<Rightarrow> ('a \<Rightarrow> py_error + 'b) \<Rightarrow> py_error + 'b" where
  "bnd r f = (case r of Inl e \<Rightarrow> Inl e | Inr x \<Rightarrow> f x)"

fun map_err :: "('a \<Rightarrow> py_error + 'b) \<Rightarrow> 'a list \<Rightarrow> py_error + 'b list" where
  "map_err f [] = Inr []"
| "map_err f (x # xs) = bnd (f x) (\<lambda>y. bnd (map_err f xs) (\<lambda>ys. Inr (y # ys)))"

text \<open>
  The values \<open>json.loads\<close> produces. A Python \<open>float\<close> is modelled by the real number it
  denotes: arithmetic is exact, and NaN, the infinities, the negative zero and the
  overflow of a conversion to \<open>float\<close> are outside the model. An \<open>int\<close> is unbounded.
\<close>

datatype json =
  JNull | JBool bool | JInt int | JFloat real | JStr ustr
  | JArr "json list" | JObj "(ustr \<times> json) list"

text \<open>
  The functions of the standard library whose code is not part of the repository are
  parameters of the model:
  \<^item> \<open>json_loads s\<close> is the value \<open>json.loads(s)\<close> returns, \<open>None\<close> when it raises
    \<open>JSONDecodeError\<close>;
  \<^item> \<open>float_of_str s\<close> is the value \<open>float(s)\<close> returns for a string, \<open>None\<close> when it
    raises \<open>ValueError\<close>;
  \<^item> \<open>str_of v\<close> is \<open>str(v)\<close> for a value that is not a string.
\<close>

record pylib =
  json_loads :: "ustr \<Rightarrow> json option"
  float_of_str :: "ustr \<Rightarrow> real option"
  str_of :: "json \<Rightarrow> ustr"

text \<open>Truth value of an object, as \<open>or\<close> and \<open>if\<close> test it.\<close>

fun truthy :: "json \<Rightarrow> bool" where
  "truthy JNull = False"
| "truthy (JBool b) = b"
| "truthy (JInt i) = (i \<noteq> 0)"
| "truthy (JFloat r) = (r \<noteq> 0)"
| "truthy (JStr s) = (s \<noteq> [])"
| "truthy (JArr xs) = (xs \<noteq> [])"
| "truthy (JObj kvs) = (kvs \<noteq> [])"

text \<open>\<open>a or b\<close>: the first operand when it is true, the second otherwise.\<close>

definition py_or :: "json \<Rightarrow> json \<Rightarrow> json" where
  "py_or a b = (if truthy a then a else b)"

text \<open>\<open>d.get(key)\<close>: only a dict has the method; a missing key gives \<open>None\<close>.\<close>

fun py_get :: "json \<Rightarrow> ustr \<Rightarrow> py_error + json" where
  "py_get (JObj kvs) k = Inr (case map_of kvs k of None \<Rightarrow> JNull | Some v \<Rightarrow> v)"
| "py_get v k = Inl AttributeError"

text \<open>\<open>float(v)\<close>.\<close>

fun py_float :: "pylib \<Rightarrow> json \<Rightarrow> py_error + real" where
  "py_float L (JInt i) = Inr (of_int i)"
| "py_float L (JFloat r) = Inr r"
| "py_float L (JBool b) = Inr (if b then 1 else 0)"
| "py_float L (JStr s) = (case float_of_str L s of None \<Rightarrow> Inl ValueError | Some r \<Rightarrow> Inr r)"
| "py_float L v = Inl TypeError"

text \<open>\<open>json.loads(v)\<close>: the argument must be a string.\<close>

fun py_json_loads :: "pylib \<Rightarrow> json \<Rightarrow> py_error + json" where
  "py_json_loads L (JStr s) =
     (case json_loads L s of None \<Rightarrow> Inl JSONDecodeError | Some v \<Rightarrow> Inr v)"
| "py_json_loads L v = Inl TypeError"

text \<open>
  \<open>v[0]\<close>: the first element of a list or the first character of a string, \<open>IndexError\<close>
  when there is none; a dict decoded from JSON has string keys only, so the key \<open>0\<close> is
  missing; any other value is not subscriptable.
\<close>

fun py_index0 :: "json \<Rightarrow> py_error + json" where
  "py_index0 (JArr []) = Inl IndexError"
| "py_index0 (JArr (x # xs)) = Inr x"
| "py_index0 (JStr []) = Inl IndexError"
| "py_index0 (JStr (c # cs)) = Inr (JStr [c])"
| "py_index0 (JObj kvs) = Inl KeyError"
| "py_index0 v = Inl TypeError"

text \<open>
  \<open>for m in v\<close>: a list gives its elements, a string its characters, a dict its keys;
  nothing else can be iterated.
\<close>

fun py_iter :: "json \<Rightarrow> py_error + json list" where
  "py_iter (JArr xs) = Inr xs"
| "py_iter (JStr s) = Inr (map (\<lambda>c. JStr [c]) s)"
| "py_iter (JObj kvs) = Inr (map (\<lambda>kv. JStr (fst kv)) kvs)"
| "py_iter v = Inl TypeError"

text \<open>\<open>xs[:k]\<close>: a negative \<open>k\<close> counts from the end.\<close>

definition py_take :: "int \<Rightarrow> 'a list \<Rightarrow> 'a list" where
  "py_take k xs = (if 0 \<le> k then take (nat k) xs else take (length xs - nat (- k)) xs)"

text \<open>
  \<open>list.sort(key=..., reverse=True)\<close>: a stable sort into descending order of the keys
  (elements with equal keys keep the order they had), here as an insertion sort.
\<close>

fun insort_desc :: "('a \<Rightarrow> 'k::linorder) \<Rightarrow> 'a \<Rightarrow> 'a list \<Rightarrow> 'a list" where
  "insort_desc key x [] = [x]"
| "insort_desc key x (y # ys) =
     (if key x < key y then y # insort_desc key x ys else x # y # ys)"

definition sort_desc :: "('a \<Rightarrow> 'k::linorder) \<Rightarrow> 'a list \<Rightarrow> 'a list" where
  "sort_desc key xs = foldr (insort_desc key) xs []"


section \<open>Number formatting\<close>

text \<open>
  The format specifications \<open>.0f\<close> and \<open>.1f\<close> print the decimal numeral with the given
  number of fraction digits that is nearest to the value, a tie going to the even last
  digit; a negative value keeps its sign even when it rounds to zero.
\<close>

definition round_half_even :: "real \<Rightarrow> int" where
  "round_half_even x =
     (let f = \<lfloor>x\<rfloor>; r = x - of_int f
      in if r < 1 / 2 then f else if 1 / 2 < r then f + 1
         else if even f then f else f + 1)"

function digits :: "nat \<Rightarrow> ustr" where
  "digits n = (if n < 10 then [48 + n] else digits (n div 10) @ [48 + n mod 10])"
  by pat_completeness auto
termination
  by (relation "measure id") auto

declare digits.simps [simp del]

text \<open>The last \<open>d\<close> decimal digits of \<open>n\<close>, zeros included.\<close>

fun frac_digits :: "nat \<Rightarrow> nat \<Rightarrow> ustr" where
  "frac_digits 0 n = []"
| "frac_digits (Suc d) n = frac_digits d (n div 10) @ [48 + n mod 10]"

definition fmt_f :: "nat \<Rightarrow> real \<Rightarrow> ustr" where
  "fmt_f d x =
     (let m = nat (round_half_even (\<bar>x\<bar> * 10 ^ d))
      in (if x < 0 then lit ''-'' else []) @ digits (m div 10 ^ d)
         @ (if d = 0 then [] else lit ''.'' @ frac_digits d (m mod 10 ^ d)))"

text \<open>\<open>str(i)\<close> for an integer.\<close>

definition str_int :: "int \<Rightarrow> ustr" where
  "str_int i = (if i < 0 then lit ''-'' else []) @ digits (nat \<bar>i\<bar>)"

text \<open>\<open>str(v)\<close>: a string is itself; the library prints everything else.\<close>

fun py_str :: "pylib \<Rightarrow> json \<Rightarrow> ustr" where
  "py_str L (JStr s) = s"
| "py_str L v = str_of L v"


section \<open>Display formatter (dashboard.py, server.py)\<close>

definition fmt_vol :: "pylib \<Rightarrow> json \<Rightarrow> py_error + ustr" where
  "fmt_vol L v =
     (case py_float L (py_or v (JInt 0)) of
        Inl e \<Rightarrow> if caught [ValueError, TypeError] e then Inr EM_DASH else Inl e
      | Inr n \<Rightarrow>
          if 1000000 \<le> n then Inr (lit ''$'' @ fmt_f 1 (n / 1000000) @ lit ''M'')
          else if 1000 \<le> n then Inr (lit ''$'' @ fmt_f 0 (n / 1000) @ lit ''K'')
          else Inr (lit ''$'' @ fmt_f 0 n))"

definition fmt_price_cents :: "real \<Rightarrow> ustr" where
  "fmt_price_cents yes =
     (let cents = yes * 100
      in if cents < 1 then lit ''<1'' @ CENT else fmt_f 0 cents @ CENT)"

text \<open>A \<open>rich.text.Text\<close>: the characters and the style.\<close>

record rich_text =
  plain :: ustr
  style :: string

definition fmt_delta :: "pylib \<Rightarrow> json \<Rightarrow> py_error + rich_text" where
  "fmt_delta L delta =
     (if delta = JNull then Inr \<lparr>plain = EM_DASH, style = ''dim''\<rparr>
      else case py_float L delta of
        Inl e \<Rightarrow>
          if caught [ValueError, TypeError] e then Inr \<lparr>plain = EM_DASH, style = ''dim''\<rparr>
          else Inl e
      | Inr f \<Rightarrow>
          (let cents = f * 100
           in if \<bar>cents\<bar> < 5 / 100 then Inr \<lparr>plain = EM_DASH, style = ''dim''\<rparr>
              else
                (let sign = (if 0 < cents then lit ''+'' else []);
                     arrow = (if 0 < cents then UP_ARROW else DOWN_ARROW);
                     color = (if 0 < cents then ''green'' else ''red'')
                 in Inr \<lparr>plain = arrow @ sign @ fmt_f 1 cents, style = color\<rparr>)))"

text \<open>The dict \<open>{"text": ..., "direction": ...}\<close> of the web variant.\<close>

record delta_plain =
  text_of :: ustr
  direction :: string

definition fmt_delta_plain :: "pylib \<Rightarrow> json \<Rightarrow> py_error + delta_plain" where
  "fmt_delta_plain L delta =
     (if delta = JNull then Inr \<lparr>text_of = EM_DASH, direction = ''flat''\<rparr>
      else case py_float L delta of
        Inl e \<Rightarrow>
          if caught [ValueError, TypeError] e
          then Inr \<lparr>text_of = EM_DASH, direction = ''flat''\<rparr>
          else Inl e
      | Inr f \<Rightarrow>
          (let cents = f * 100
           in if \<bar>cents\<bar> < 5 / 100 then Inr \<lparr>text_of = EM_DASH, direction = ''flat''\<rparr>
              else
                (let sign = (if 0 < cents then lit ''+'' else []);
                     arrow = (if 0 < cents then UP_ARROW else DOWN_ARROW);
                     dir = (if 0 < cents then ''up'' else ''down'')
                 in Inr \<lparr>text_of = arrow @ sign @ fmt_f 1 cents, direction = dir\<rparr>)))"

text \<open>
  \<open>truncate(s, n)\<close>: \<open>s[: n - 1]\<close> is a slice, so an \<open>n\<close> below 1 cuts from the end.
\<close>

definition truncate_str :: "pylib \<Rightarrow> json \<Rightarrow> int \<Rightarrow> ustr" where
  "truncate_str L s n =
     (let s' = py_str L s
      in if int (length s') \<le> n then s' else py_take (n - 1) s' @ ELLIPSIS)"


section \<open>Contender extractor (dashboard.py top\_contenders, server.py \_all\_contenders)\<close>

text \<open>
  The \<open>try\<close> block of both extractors: the outcome prices are decoded, their first element
  is converted, and \<open>JSONDecodeError\<close>, \<open>IndexError\<close> and \<open>ValueError\<close> give 0.0. Any other
  exception leaves the function.
\<close>

definition parse_yes :: "pylib \<Rightarrow> json \<Rightarrow> py_error + real" where
  "parse_yes L m =
     (case bnd (py_get m (lit ''outcomePrices'')) (\<lambda>raw.
           bnd (py_json_loads L (py_or raw (JStr (lit ''[0,1]'')))) (\<lambda>prices.
           bnd (py_index0 prices) (\<lambda>first.
           py_float L first))) of
        Inl e \<Rightarrow> if caught [JSONDecodeError, IndexError, ValueError] e then Inr 0 else Inl e
      | Inr y \<Rightarrow> Inr y)"

text \<open>
  The dict appended for one market by \<open>top_contenders\<close>; the fields are the keys
  \<open>"name"\<close>, \<open>"yes"\<close> and \<open>"delta"\<close>. A name is whatever value the market holds, not
  necessarily a string.
\<close>

record contender =
  c_name :: json
  c_yes :: real
  c_delta :: json

definition contender_of :: "pylib \<Rightarrow> json \<Rightarrow> py_error + contender" where
  "contender_of L m =
     bnd (parse_yes L m) (\<lambda>y.
     bnd (py_get m (lit ''groupItemTitle'')) (\<lambda>g.
     bnd (py_get m (lit ''question'')) (\<lambda>q.
     bnd (py_get m (lit ''oneDayPriceChange'')) (\<lambda>d.
     Inr \<lparr>c_name = py_or (py_or g q) (JStr (lit ''?'')), c_yes = y, c_delta = d\<rparr>))))"

text \<open>
  \<open>markets = event.get("markets") or []\<close> and the elements the \<open>for\<close> loop visits, in
  order.
\<close>

definition markets_of :: "json \<Rightarrow> py_error + json list" where
  "markets_of event =
     bnd (py_get event (lit ''markets'')) (\<lambda>mk. py_iter (py_or mk (JArr [])))"

definition top_contenders :: "pylib \<Rightarrow> json \<Rightarrow> py_error + contender list" where
  "top_contenders L event =
     bnd (markets_of event) (\<lambda>markets.
     bnd (map_err (contender_of L) markets) (\<lambda>parsed.
     Inr (py_take TOP_N_CONTENDERS (sort_desc c_yes parsed))))"

text \<open>The dict of the web variant, with the key \<open>"endDate"\<close> added.\<close>

record web_contender =
  w_name :: json
  w_yes :: real
  w_delta :: json
  w_endDate :: json

definition web_contender_of :: "pylib \<Rightarrow> json \<Rightarrow> py_error + web_contender" where
  "web_contender_of L m =
     bnd (parse_yes L m) (\<lambda>y.
     bnd (py_get m (lit ''groupItemTitle'')) (\<lambda>g.
     bnd (py_get m (lit ''question'')) (\<lambda>q.
     bnd (py_get m (lit ''oneDayPriceChange'')) (\<lambda>d.
     bnd (py_get m (lit ''endDateIso'')) (\<lambda>ei.
     bnd (py_get m (lit ''endDate'')) (\<lambda>ed.
     Inr \<lparr>w_name = py_or (py_or g q) (JStr (lit ''?'')), w_yes = y, w_delta = d,
          w_endDate = py_or (py_or ei ed) (JStr [])\<rparr>))))))"

definition all_contenders :: "pylib \<Rightarrow> json \<Rightarrow> py_error + web_contender list" where
  "all_contenders L event =
     bnd (markets_of event) (\<lambda>markets.
     bnd (map_err (web_contender_of L) markets) (\<lambda>parsed.
     Inr (sort_desc w_yes parsed)))"


section \<open>Market data client (dashboard.py, fetch\_events)\<close>

text \<open>
  What \<open>subprocess.run\<close> returns. The external tool is a parameter: \<open>run n\<close> is the outcome
  of invoking it with \<open>--limit n\<close>, an \<open>OSError\<close> when it cannot be started.
\<close>

record proc_result =
  returncode :: int
  stdout :: ustr
  stderr :: ustr

text \<open>The sort key \<open>float(e.get("volume") or 0)\<close>.\<close>

definition volume_key :: "pylib \<Rightarrow> json \<Rightarrow> py_error + real" where
  "volume_key L e = bnd (py_get e (lit ''volume'')) (\<lambda>v. py_float L (py_or v (JInt 0)))"

text \<open>
  \<open>data.sort(key=..., reverse=True)\<close> followed by \<open>data[:limit]\<close>: only a list has the
  method; the keys of all elements are computed first, in order, and the first exception
  of a key ends the sort.
\<close>

definition sort_and_truncate :: "pylib \<Rightarrow> json \<Rightarrow> int \<Rightarrow> py_error + json list" where
  "sort_and_truncate L data limit =
     (case data of
        JArr events \<Rightarrow>
          bnd (map_err (volume_key L) events) (\<lambda>keys.
          Inr (py_take limit (map snd (sort_desc fst (zip keys events)))))
      | _ \<Rightarrow> Inl AttributeError)"

definition fetch_events ::
  "pylib \<Rightarrow> (int \<Rightarrow> py_error + proc_result) \<Rightarrow> int \<Rightarrow> py_error + json list" where
  "fetch_events L run limit =
     (let fetch_count = max (limit * 5) 100
      in bnd (run fetch_count) (\<lambda>result.
           if returncode result \<noteq> 0 then Inr []
           else
             (case bnd (py_json_loads L (JStr (stdout result))) (\<lambda>data.
                   sort_and_truncate L data limit) of
                Inl e \<Rightarrow> if caught [JSONDecodeError] e then Inr [] else Inl e
              | Inr events \<Rightarrow> Inr events)))"


section \<open>Terminal table rows (dashboard.py, build\_table)\<close>

datatype cell = Str ustr | Txt rich_text

text \<open>The dict \<open>{"name": "", "yes": 0, "delta": None}\<close> that pads a short list.\<close>

definition pad_contender :: contender where
  "pad_contender = \<lparr>c_name = JStr [], c_yes = 0, c_delta = JNull\<rparr>"

text \<open>The price cell of a table row.\<close>

definition price_cell :: "contender \<Rightarrow> ustr" where
  "price_cell c = (if 0 < c_yes c then fmt_price_cents (c_yes c) else [])"

definition contender_cells :: "pylib \<Rightarrow> int \<Rightarrow> contender \<Rightarrow> py_error + cell list" where
  "contender_cells L name_w c =
     bnd (fmt_delta L (c_delta c)) (\<lambda>d.
     Inr [Str (truncate_str L (c_name c) name_w), Str (price_cell c), Txt d])"

definition build_row ::
  "pylib \<Rightarrow> int \<Rightarrow> int \<Rightarrow> int \<Rightarrow> int \<Rightarrow> json \<Rightarrow> py_error + cell list" where
  "build_row L n_cont name_w event_w idx event =
     bnd (top_contenders L event) (\<lambda>cs.
     (let contenders = cs @ replicate (nat (n_cont - int (length cs))) pad_contender
      in bnd (py_get event (lit ''title'')) (\<lambda>title.
         bnd (py_get event (lit ''volume'')) (\<lambda>v.
         bnd (fmt_vol L v) (\<lambda>vol.
         bnd (py_get event (lit ''volume24hr'')) (\<lambda>v24.
         bnd (fmt_vol L v24) (\<lambda>vol24.
         bnd (map_err (contender_cells L name_w) (py_take n_cont contenders)) (\<lambda>cells.
         Inr ([Str (str_int idx), Str (truncate_str L (py_or title (JStr (lit ''?''))) event_w),
               Str vol, Str vol24] @ concat cells)))))))))"

text \<open>
  The rows of \<open>build_table\<close>, numbered from 1; \<open>console.width or 200\<close> is the width used.
\<close>

definition build_table :: "pylib \<Rightarrow> int \<Rightarrow> json list \<Rightarrow> py_error + cell list list" where
  "build_table L console_width events =
     (case calc_layout (if console_width = 0 then 200 else console_width) of
        (n_cont, name_w, event_w) \<Rightarrow>
          map_err (\<lambda>(idx, event). build_row L n_cont name_w event_w idx event)
            (zip [1..int (length events)] events))"


section \<open>Web API response (server.py, events\_to\_json)\<close>

record contender_json =
  j_name :: json
  j_price :: ustr
  j_delta :: delta_plain
  j_endDate :: json

definition price_field :: "web_contender \<Rightarrow> ustr" where
  "price_field c = (if 0 < w_yes c then fmt_price_cents (w_yes c) else [])"

definition contender_to_json :: "pylib \<Rightarrow> web_contender \<Rightarrow> py_error + contender_json" where
  "contender_to_json L c =
     bnd (fmt_delta_plain L (w_delta c)) (\<lambda>d.
     Inr \<lparr>j_name = w_name c, j_price = price_field c, j_delta = d, j_endDate = w_endDate c\<rparr>)"

record event_json =
  e_rank :: int
  e_title :: json
  e_volume :: ustr
  e_volume24h :: ustr
  e_volumeRaw :: real
  e_volume24hRaw :: real
  e_endDate :: json
  e_contenderCount :: nat
  e_contenders :: "contender_json list"

text \<open>A \<open>float(...)\<close> wrapped in \<open>try ... except (ValueError, TypeError)\<close> with default 0.0.\<close>

definition float_or_zero :: "pylib \<Rightarrow> json \<Rightarrow> py_error + real" where
  "float_or_zero L v =
     (case py_float L v of
        Inl e \<Rightarrow> if caught [ValueError, TypeError] e then Inr 0 else Inl e
      | Inr r \<Rightarrow> Inr r)"

definition event_to_json :: "pylib \<Rightarrow> int \<Rightarrow> json \<Rightarrow> py_error + event_json" where
  "event_to_json L idx event =
     bnd (all_contenders L event) (\<lambda>contenders_raw.
     bnd (map_err (contender_to_json L) contenders_raw) (\<lambda>contenders.
     bnd (py_get event (lit ''volumeNum'')) (\<lambda>vn.
     bnd (py_get event (lit ''volume'')) (\<lambda>v.
     bnd (float_or_zero L (py_or (py_or vn v) (JInt 0))) (\<lambda>volume_raw.
     bnd (py_get event (lit ''volume24hr'')) (\<lambda>v24.
     bnd (float_or_zero L (py_or v24 (JInt 0))) (\<lambda>volume24h_raw.
     bnd (py_get event (lit ''title'')) (\<lambda>title.
     bnd (fmt_vol L v) (\<lambda>vol.
     bnd (fmt_vol L v24) (\<lambda>vol24.
     bnd (py_get event (lit ''endDateIso'')) (\<lambda>ei.
     bnd (py_get event (lit ''endDate'')) (\<lambda>ed.
     Inr \<lparr>e_rank = idx, e_title = py_or title (JStr (lit ''?'')), e_volume = vol,
          e_volume24h = vol24, e_volumeRaw = volume_raw, e_volume24hRaw = volume24h_raw,
          e_endDate = py_or (py_or ei ed) (JStr []),
          e_contenderCount = length contenders_raw,
          e_contenders = contenders\<rparr>))))))))))))"

record response =
  r_ts :: ustr
  r_ttl :: int
  r_events :: "event_json list"

text \<open>The clock reading \<open>ts\<close> and the configured \<open>CACHE_TTL\<close> are parameters.\<close>

definition events_to_json ::
  "pylib \<Rightarrow> ustr \<Rightarrow> int \<Rightarrow> json list \<Rightarrow> py_error + response" where
  "events_to_json L ts ttl events =
     bnd (map_err (\<lambda>(idx, event). event_to_json L idx event)
            (zip [1..int (length events)] events)) (\<lambda>result.
     Inr \<lparr>r_ts = ts, r_ttl = ttl, r_events = result\<rparr>)"


section \<open>Cached fetch service (server.py, get\_events)\<close>

text \<open>
  The module state: the dict \<open>_cache\<close> from a limit to the pair of a timestamp and a
  result, and a log of the limits the market data client was invoked with, which makes
  the upstream invocations observable. Readings of the monotonic clock are real numbers.
\<close>

record cache_state =
  cache :: "int \<rightharpoonup> real \<times> json list"
  upstream_calls :: "int list"

text \<open>
  The test at the head of the critical section: the data of the entry for \<open>limit\<close> when
  there is one and \<open>now - ts < CACHE_TTL\<close>.
\<close>

definition fresh_entry ::
  "int \<Rightarrow> real \<Rightarrow> (int \<rightharpoonup> real \<times> json list) \<Rightarrow> int \<Rightarrow> json list option" where
  "fresh_entry ttl now c limit =
     (case c limit of
        None \<Rightarrow> None
      | Some (ts, data) \<Rightarrow> if now - ts < of_int ttl then Some data else None)"

text \<open>
  One call running alone from start to end. \<open>now\<close> is the clock reading taken on entry,
  \<open>ttl\<close> the configured \<open>CACHE_TTL\<close>, \<open>run\<close> the external tool at the time of the call.
\<close>

definition get_events ::
  "pylib \<Rightarrow> int \<Rightarrow> (int \<Rightarrow> py_error + proc_result) \<Rightarrow> int \<Rightarrow> real \<Rightarrow> cache_state
     \<Rightarrow> (py_error + json list) \<times> cache_state" where
  "get_events L ttl run limit now st =
     (case fresh_entry ttl now (cache st) limit of
        Some data \<Rightarrow> (Inr data, st)
      | None \<Rightarrow>
          (let st1 = st\<lparr>upstream_calls := upstream_calls st @ [limit]\<rparr>
           in case fetch_events L run limit of
                Inl e \<Rightarrow> (Inl e, st1)
              | Inr data \<Rightarrow> (Inr data, st1\<lparr>cache := (cache st1)(limit \<mapsto> (now, data))\<rparr>)))"


section \<open>Concurrent callers of the cached fetch service (server.py, get\_events)\<close>





text \<open>
  What the event loop can do next: start a new call of \<open>get_events(limit)\<close>, resume the
  first call that waits for the lock, resume the call whose fetch the worker thread has
  finished (with the result or the exception of the fetch), or let time pass. An event
  that is not possible in a state leaves the state as it is.
\<close>

datatype event = Call int | Wake | Complete nat "py_error + json list" | Tick real






section \<open>Snapshot endpoint (server.py, api\_events)\<close>

text \<open>
  The query parameter \<open>limit\<close> as the request carries it: absent, an integer, or text
  that is not an integer. The declaration \<open>Query(10, ge=1, le=100)\<close> makes the framework
  use 10 for an absent parameter and answer a value that is not an integer, or one
  outside the bounds, with a validation error (status 422) without calling the handler.
\<close>

datatype limit_param = Absent | IntParam int | NotAnInt

datatype http_error = ValidationError | ServerError py_error

definition validate_limit :: "limit_param \<Rightarrow> http_error + int" where
  "validate_limit q =
     (case q of
        Absent \<Rightarrow> Inr 10
      | IntParam n \<Rightarrow> if 1 \<le> n \<and> n \<le> 100 then Inr n else Inl ValidationError
      | NotAnInt \<Rightarrow> Inl ValidationError)"

text \<open>The body of the handler, run with a limit that passed the validation.\<close>

definition serve_events ::
  "pylib \<Rightarrow> int \<Rightarrow> (int \<Rightarrow> py_error + proc_result) \<Rightarrow> ustr \<Rightarrow> int \<Rightarrow> real
     \<Rightarrow> cache_state \<Rightarrow> (http_error + response) \<times> cache_state" where
  "serve_events L ttl run ts limit now st =
     (case get_events L ttl run limit now st of
        (Inl e, st') \<Rightarrow> (Inl (ServerError e), st')
      | (Inr events, st') \<Rightarrow>
          (case events_to_json L ts ttl events of
             Inl e \<Rightarrow> (Inl (ServerError e), st')
           | Inr body \<Rightarrow> (Inr body, st')))"

definition api_events ::
  "pylib \<Rightarrow> int \<Rightarrow> (int \<Rightarrow> py_error + proc_result) \<Rightarrow> ustr \<Rightarrow> limit_param \<Rightarrow> real
     \<Rightarrow> cache_state \<Rightarrow> (http_error + response) \<times> cache_state" where
  "api_events L ttl run ts q now st =
     (case validate_limit q of
        Inl e \<Rightarrow> (Inl e, st)
      | Inr limit \<Rightarrow> serve_events L ttl run ts limit now st)"


section \<open>Sample inputs\<close>

text \<open>
  The library functions on the finitely many arguments that the examples of this theory
  pass to them; each listed pair is what the interpreter returns, and a string that is
  not listed and is used below is one the interpreter rejects.
\<close>

text \<open>The output of the tool for two events, the second with the volume \<open>"abc"\<close>.\<close>

definition text_volume_stdout :: ustr where
  "text_volume_stdout = lit ''[{\"volume\": \"100\"}, {\"volume\": \"abc\"}]''"

definition text_volume_events :: "json list" where
  "text_volume_events =
     [JObj [(lit ''volume'', JStr (lit ''100''))], JObj [(lit ''volume'', JStr (lit ''abc''))]]"

definition sample_lib :: pylib where
  "sample_lib =
     \<lparr>json_loads = map_of
        [(lit ''[0,1]'', JArr [JInt 0, JInt 1]),
         (lit ''[0.5, 0.5]'', JArr [JFloat (1 / 2), JFloat (1 / 2)]),
         (lit ''[0.7, 0.3]'', JArr [JFloat (7 / 10), JFloat (3 / 10)]),
         (lit ''[null]'', JArr [JNull]),
         (lit ''[]'', JArr []),
         (text_volume_stdout, JArr text_volume_events)],
      float_of_str = map_of [(lit ''100'', 100), (lit ''2500'', 2500)],
      str_of = (\<lambda>v. case v of JInt i \<Rightarrow> str_int i | _ \<Rightarrow> [])\<rparr>"

text \<open>A tool that exits with status 0 and prints the given text.\<close>

definition prints :: "ustr \<Rightarrow> int \<Rightarrow> py_error + proc_result" where
  "prints out n = Inr \<lparr>returncode = 0, stdout = out, stderr = []\<rparr>"

text \<open>A market with a group label and string-encoded outcome prices.\<close>

definition sample_market :: "string \<Rightarrow> string \<Rightarrow> json" where
  "sample_market label prices =
     JObj [(lit ''groupItemTitle'', JStr (lit label)), (lit ''outcomePrices'', JStr (lit prices))]"




text \<open>An event whose first market carries the price list \<open>[null]\<close>.\<close>

definition null_price_event :: json where
  "null_price_event =
     JObj [(lit ''title'', JStr (lit ''T'')),
           (lit ''markets'', JArr [sample_market ''A'' ''[null]'',
                                   sample_market ''B'' ''[0.7, 0.3]''])]"

text \<open>An event whose first market carries the empty price list.\<close>

definition empty_price_event :: json where
  "empty_price_event =
     JObj [(lit ''title'', JStr (lit ''T'')),
           (lit ''markets'', JArr [sample_market ''A'' ''[]'',
                                   sample_market ''B'' ''[0.7, 0.3]''])]"

text \<open>The server state before the first request, and one holding an entry for limit 10.\<close>

definition empty_state :: cache_state where
  "empty_state = \<lparr>cache = Map.empty, upstream_calls = []\<rparr>"

definition warm_state :: cache_state where
  "warm_state = \<lparr>cache = [10 \<mapsto> (100, [JObj []])], upstream_calls = [10]\<rparr>"


section \<open>Properties of the layout engine\<close>

lemma total_width_min: "total_width k MIN_NAME_W = 60 + 23 * k"
  by (simp add: total_width_def FIXED_COLS_W_def PRICE_W_def DELTA_W_def MIN_NAME_W_def
      algebra_simps)

lemma range_down_top: "range_down TOP_N_CONTENDERS = [5, 4, 3, 2, 1]"
  by (simp add: range_down_def TOP_N_CONTENDERS_def upto.simps)

lemma first_fit_top:
  "first_fit (range_down TOP_N_CONTENDERS) W =
     (if 175 \<le> W then 5 else if 152 \<le> W then 4 else if 129 \<le> W then 3
      else if 106 \<le> W then 2 else if 83 \<le> W then 1 else 0)"
  by (simp add: range_down_top total_width_min)

lemmas layout_consts =
  total_width_def FIXED_COLS_W_def PRICE_W_def DELTA_W_def MIN_NAME_W_def EVENT_W_def

lemma total_width_name:
  "total_width n (MIN_NAME_W + d) = total_width n MIN_NAME_W + n * d"
  by (simp add: total_width_def Let_def algebra_simps)

text \<open>
  Integer division never hands out more than the leftover, so the table is never wider
  than the terminal, whichever count was chosen.
\<close>

lemma total_width_leftover:
  assumes "0 < n"
  shows "total_width n (MIN_NAME_W + (W - total_width n MIN_NAME_W) div n) \<le> W"
proof -
  have "n * ((W - total_width n MIN_NAME_W) div n) \<le> W - total_width n MIN_NAME_W"
    using assms pos_mod_sign [of n "W - total_width n MIN_NAME_W"]
      mult_div_mod_eq [of n "W - total_width n MIN_NAME_W"]
    by linarith
  then show ?thesis
    by (simp only: total_width_name)
qed

lemma first_fit_range:
  "first_fit (range_down TOP_N_CONTENDERS) W \<in> {0, 1, 2, 3, 4, 5}"
  by (simp add: first_fit_top)

text \<open>
  Claim C1. For every terminal width \<open>W\<close>, \<open>calc_layout\<close> returns a contender count between
  1 and the configured maximum (5); whenever some count in that range fits at the minimum
  name width, the total width recomputed at the returned count and name width is at most
  \<open>W\<close>; and below the width of a single contender the count is still 1.
\<close>

theorem calc_layout_count_and_fit:
  "case calc_layout W of (n, name_w, event_w) \<Rightarrow>
     1 \<le> n \<and> n \<le> TOP_N_CONTENDERS \<and>
     ((\<exists>k. 1 \<le> k \<and> k \<le> TOP_N_CONTENDERS \<and> total_width k MIN_NAME_W \<le> W)
        \<longrightarrow> total_width n name_w \<le> W) \<and>
     (W < total_width 1 MIN_NAME_W \<longrightarrow> n = 1)"
proof -
  define n0 where "n0 = first_fit (range_down TOP_N_CONTENDERS) W"
  define n where "n = (if n0 = 0 then 1 else n0)"
  have n0: "n0 \<in> {0, 1, 2, 3, 4, 5}"
    unfolding n0_def by (rule first_fit_range)
  have n: "1 \<le> n" "n \<le> TOP_N_CONTENDERS"
    using n0 by (auto simp: n_def TOP_N_CONTENDERS_def)
  have w: "total_width n (MIN_NAME_W + (W - total_width n MIN_NAME_W) div n) \<le> W"
    using n(1) by (intro total_width_leftover) simp
  have small: "W < total_width 1 MIN_NAME_W \<Longrightarrow> n = 1"
    by (simp add: n_def n0_def first_fit_top total_width_min)
  have eq: "calc_layout W = (n, MIN_NAME_W + (W - total_width n MIN_NAME_W) div n, EVENT_W)"
    by (simp add: calc_layout_def Let_def n_def n0_def)
  show ?thesis
    unfolding eq using n w small by simp
qed

theorem calc_layout_count_and_fit_witness:
  "(\<exists>k. 1 \<le> k \<and> k \<le> TOP_N_CONTENDERS \<and> total_width k MIN_NAME_W \<le> 200) \<and>
   calc_layout 200 = (5, 13, 35) \<and> total_width 5 13 \<le> 200 \<and>
   (50::int) < total_width 1 MIN_NAME_W \<and> fst (calc_layout 50) = 1"
proof -
  have ex: "\<exists>k. 1 \<le> k \<and> k \<le> TOP_N_CONTENDERS \<and> total_width k MIN_NAME_W \<le> 200"
    by (rule exI [of _ 5]) (simp add: TOP_N_CONTENDERS_def total_width_min)
  have c200: "calc_layout 200 = (5, 13, 35)"
    by (simp add: calc_layout_def Let_def first_fit_top layout_consts)
  have lt: "(50::int) < total_width 1 MIN_NAME_W"
    by (simp add: total_width_min)
  from calc_layout_count_and_fit [of 200] ex c200
  have "total_width 5 13 \<le> 200" by (simp add: TOP_N_CONTENDERS_def)
  moreover from calc_layout_count_and_fit [of 50] lt
  have "fst (calc_layout 50) = 1" by (simp split: prod.splits)
  ultimately show ?thesis using ex c200 lt by simp
qed

text \<open>The count returned is the largest one that fits at the minimum name width.\<close>

lemma calc_layout_largest_fit:
  assumes "1 \<le> k" and "k \<le> TOP_N_CONTENDERS" and "total_width k MIN_NAME_W \<le> W"
  shows "k \<le> fst (calc_layout W)"
proof -
  from assms have "k \<le> 5" and "60 + 23 * k \<le> W"
    by (simp_all add: TOP_N_CONTENDERS_def total_width_min)
  with assms(1) show ?thesis
    by (simp add: calc_layout_def Let_def first_fit_top)
qed


section \<open>Properties of the sequencing of computations\<close>

lemma bnd_simps [simp]:
  "bnd (Inl e) f = Inl e"
  "bnd (Inr x) f = f x"
  by (simp_all add: bnd_def)

lemma bnd_eq_Inr: "bnd r f = Inr y \<longleftrightarrow> (\<exists>x. r = Inr x \<and> f x = Inr y)"
  by (cases r) simp_all

lemma map_err_length: "map_err f xs = Inr ys \<Longrightarrow> length ys = length xs"
  by (induction xs arbitrary: ys) (auto simp: bnd_eq_Inr)

lemma map_err_all2: "map_err f xs = Inr ys \<Longrightarrow> list_all2 (\<lambda>x y. f x = Inr y) xs ys"
  by (induction xs arbitrary: ys) (auto simp: bnd_eq_Inr)

section \<open>Properties of the descending stable sort\<close>

lemma set_insort_desc: "set (insort_desc key x xs) = insert x (set xs)"
  by (induction xs) auto

lemma length_insort_desc: "length (insort_desc key x xs) = Suc (length xs)"
  by (induction xs) auto



lemma set_sort_desc: "set (sort_desc key xs) = set xs"
  unfolding sort_desc_def by (induction xs) (auto simp: set_insort_desc)

lemma length_sort_desc: "length (sort_desc key xs) = length xs"
  unfolding sort_desc_def by (induction xs) (auto simp: length_insort_desc)




section \<open>Properties of the contender extractor\<close>







lemma caught_simps [simp]:
  "caught [] e = False"
  "caught (c # cs) e = (is_a e c \<or> caught cs e)"
  by (simp_all add: caught_def)


text \<open>
  The exceptions the \<open>try\<close> block of the extractors turns into the default 0.0: text that
  is not JSON, an empty list, a first element that is a string but not a number; and the
  default list when the field is absent.
\<close>

lemma parse_yes_defaults:
  assumes "map_of kvs (lit ''outcomePrices'') = Some (JStr s)" and "s \<noteq> []"
  shows "json_loads L s = None \<Longrightarrow> parse_yes L (JObj kvs) = Inr 0"
    and "json_loads L s = Some (JArr []) \<Longrightarrow> parse_yes L (JObj kvs) = Inr 0"
    and "json_loads L s = Some (JArr (JStr t # rest)) \<Longrightarrow> float_of_str L t = None \<Longrightarrow>
         parse_yes L (JObj kvs) = Inr 0"
  using assms by (simp_all add: parse_yes_def py_or_def)

lemma parse_yes_absent:
  assumes "map_of kvs (lit ''outcomePrices'') = None"
    and "json_loads L (lit ''[0,1]'') = Some (JArr [JInt 0, JInt 1])"
  shows "parse_yes L (JObj kvs) = Inr 0"
  using assms by (simp add: parse_yes_def py_or_def lit_def)

text \<open>
  A first element that is \<open>null\<close> makes \<open>float\<close> raise \<open>TypeError\<close>, which the \<open>except\<close>
  clause does not list.
\<close>

lemma parse_yes_null_first:
  assumes "s \<noteq> []" and "json_loads L s = Some (JArr (JNull # rest))"
    and "map_of kvs (lit ''outcomePrices'') = Some (JStr s)"
  shows "parse_yes L (JObj kvs) = Inl TypeError"
  using assms by (simp add: parse_yes_def py_or_def)

text \<open>
  Claim C8. A market whose outcome prices fail to parse gets the yes-probability 0.0 and
  the extractor never raises. The code does not do this: for an event whose first market
  has the price list \<open>[null]\<close> both extractors raise \<open>TypeError\<close>, and the second market
  is never reached.
\<close>

theorem extractor_raises_on_null_price:
  "top_contenders sample_lib null_price_event = Inl TypeError \<and>
   all_contenders sample_lib null_price_event = Inl TypeError"
proof
  show "top_contenders sample_lib null_price_event = Inl TypeError"
    by code_simp
  show "all_contenders sample_lib null_price_event = Inl TypeError"
    by code_simp
qed

section \<open>Properties of the market data client\<close>

lemma volume_key_text:
  assumes "map_of kvs (lit ''volume'') = Some (JStr s)" and "s \<noteq> []"
    and "float_of_str L s = None"
  shows "volume_key L (JObj kvs) = Inl ValueError"
  using assms by (simp add: volume_key_def py_or_def)

lemma volume_key_missing:
  assumes "map_of kvs (lit ''volume'') = None"
  shows "volume_key L (JObj kvs) = Inr 0"
  using assms by (simp add: volume_key_def py_or_def)

text \<open>
  Claim C7. The sort-and-truncate step counts a volume that is not a number as 0, and such
  a volume never leaves the fetch as an exception. The code does not do this: a volume
  that is text makes the sort key raise \<open>ValueError\<close>, and \<open>fetch_events\<close> catches
  \<open>JSONDecodeError\<close> only.
\<close>

theorem fetch_events_raises_on_text_volume:
  "sort_and_truncate sample_lib (JArr text_volume_events) 10 = Inl ValueError \<and>
   fetch_events sample_lib (prints text_volume_stdout) 10 = Inl ValueError"
proof
  show "sort_and_truncate sample_lib (JArr text_volume_events) 10 = Inl ValueError"
    by code_simp
  show "fetch_events sample_lib (prints text_volume_stdout) 10 = Inl ValueError"
    by code_simp
qed


section \<open>Properties of the number formatting\<close>

text \<open>The printed integer is a nearest one, and an exact tie goes to the even one.\<close>

lemma round_half_even_near: "\<bar>of_int (round_half_even x) - x\<bar> \<le> 1 / 2"
proof -
  have "of_int \<lfloor>x\<rfloor> \<le> x" "x < of_int \<lfloor>x\<rfloor> + 1"
    by linarith+
  then show ?thesis
    by (auto simp: round_half_even_def Let_def)
qed

lemma round_half_even_tie: "x = of_int k + 1 / 2 \<Longrightarrow> even (round_half_even x)"
proof -
  assume x: "x = of_int k + 1 / 2"
  have "\<lfloor>x\<rfloor> = k"
    unfolding x by linarith
  then show ?thesis
    by (auto simp: round_half_even_def Let_def x)
qed


lemma fmt_price_cents_nonempty: "fmt_price_cents y \<noteq> []"
  by (simp add: fmt_price_cents_def Let_def CENT_def)

section \<open>Properties of the display formatter\<close>









section \<open>Properties of the price field\<close>

lemma contender_of_yes:
  "contender_of L m = Inr c \<Longrightarrow> parse_yes L m = Inr (c_yes c)"
  by (auto simp: contender_of_def bnd_eq_Inr)

lemma web_contender_of_yes:
  "web_contender_of L m = Inr w \<Longrightarrow> parse_yes L m = Inr (w_yes w)"
  by (auto simp: web_contender_of_def bnd_eq_Inr)

text \<open>
  Claim C10. A contender whose yes-probability is zero or negative, the 0.0 of a parse
  failure included, has the empty string as its price, in the terminal row and in the web
  object alike, where the formatter alone would print the \<open><1\<close> sentinel; the formatter is
  applied exactly when the probability is positive, and never prints the empty string.
\<close>

theorem price_empty_unless_positive:
  "(c_yes c \<le> 0 \<longrightarrow> price_cell c = []) \<and>
   (0 < c_yes c \<longrightarrow> price_cell c = fmt_price_cents (c_yes c)) \<and>
   (w_yes w \<le> 0 \<longrightarrow> price_field w = []) \<and>
   (0 < w_yes w \<longrightarrow> price_field w = fmt_price_cents (w_yes w)) \<and>
   (y \<le> 0 \<longrightarrow> fmt_price_cents y = lit ''<1'' @ CENT) \<and>
   fmt_price_cents y \<noteq> [] \<and>
   (contender_cells L name_w c = Inr cells \<longrightarrow>
      length cells = 3 \<and> cells ! 1 = Str (price_cell c)) \<and>
   (contender_to_json L w = Inr j \<longrightarrow> j_price j = price_field w) \<and>
   (contender_of L m = Inr c \<and> parse_yes L m = Inr 0 \<longrightarrow> price_cell c = []) \<and>
   (web_contender_of L m = Inr w \<and> parse_yes L m = Inr 0 \<longrightarrow> price_field w = [])"
proof -
  have sentinel: "fmt_price_cents y = lit ''<1'' @ CENT" if "y \<le> 0"
  proof -
    from that have "y * 100 < 1" by linarith
    then show ?thesis by (simp add: fmt_price_cents_def Let_def)
  qed
  have cells: "length cells = 3 \<and> cells ! 1 = Str (price_cell c)"
    if "contender_cells L name_w c = Inr cells"
    using that by (auto simp: contender_cells_def bnd_eq_Inr)
  have json: "j_price j = price_field w" if "contender_to_json L w = Inr j"
    using that by (auto simp: contender_to_json_def bnd_eq_Inr)
  have p1: "price_cell c = []" if "contender_of L m = Inr c \<and> parse_yes L m = Inr 0"
    using that contender_of_yes [of L m c] by (simp add: price_cell_def)
  have p2: "price_field w = []" if "web_contender_of L m = Inr w \<and> parse_yes L m = Inr 0"
    using that web_contender_of_yes [of L m w] by (simp add: price_field_def)
  show ?thesis
    using sentinel cells json p1 p2
    by (intro conjI impI fmt_price_cents_nonempty)
      (simp_all add: price_cell_def price_field_def)
qed


theorem price_empty_unless_positive_witness:
  "contender_of sample_lib (sample_market ''A'' ''[]'') =
     Inr \<lparr>c_name = JStr (lit ''A''), c_yes = 0, c_delta = JNull\<rparr> \<and>
   parse_yes sample_lib (sample_market ''A'' ''[]'') = Inr 0 \<and>
   price_cell \<lparr>c_name = JStr (lit ''A''), c_yes = 0, c_delta = JNull\<rparr> = [] \<and>
   contender_cells sample_lib 10 \<lparr>c_name = JStr (lit ''A''), c_yes = 0, c_delta = JNull\<rparr> =
     Inr [Str (lit ''A''), Str [], Txt \<lparr>plain = EM_DASH, style = ''dim''\<rparr>] \<and>
   [Str (lit ''A''), Str [], Txt \<lparr>plain = EM_DASH, style = ''dim''\<rparr>] ! 1 =
     Str (price_cell \<lparr>c_name = JStr (lit ''A''), c_yes = 0, c_delta = JNull\<rparr>) \<and>
   web_contender_of sample_lib (sample_market ''A'' ''[]'') =
     Inr \<lparr>w_name = JStr (lit ''A''), w_yes = 0, w_delta = JNull, w_endDate = JStr []\<rparr> \<and>
   price_field \<lparr>w_name = JStr (lit ''A''), w_yes = 0, w_delta = JNull, w_endDate = JStr []\<rparr>
     = [] \<and>
   contender_to_json sample_lib
       \<lparr>w_name = JStr (lit ''A''), w_yes = 0, w_delta = JNull, w_endDate = JStr []\<rparr> =
     Inr \<lparr>j_name = JStr (lit ''A''), j_price = [],
          j_delta = \<lparr>text_of = EM_DASH, direction = ''flat''\<rparr>, j_endDate = JStr []\<rparr> \<and>
   fmt_price_cents 0 = lit ''<1'' @ CENT \<and>
   price_cell \<lparr>c_name = JStr (lit ''B''), c_yes = 7 / 10, c_delta = JNull\<rparr> =
     fmt_price_cents (7 / 10) \<and>
   price_field \<lparr>w_name = JStr (lit ''B''), w_yes = 7 / 10, w_delta = JNull,
       w_endDate = JStr []\<rparr> = fmt_price_cents (7 / 10)"
proof -
  let ?m = "sample_market ''A'' ''[]''"
  let ?c = "\<lparr>c_name = JStr (lit ''A''), c_yes = 0, c_delta = JNull\<rparr>"
  let ?w = "\<lparr>w_name = JStr (lit ''A''), w_yes = 0, w_delta = JNull, w_endDate = JStr []\<rparr>"
  let ?cells = "[Str (lit ''A''), Str [], Txt \<lparr>plain = EM_DASH, style = ''dim''\<rparr>]"
  let ?j = "\<lparr>j_name = JStr (lit ''A''), j_price = [],
          j_delta = \<lparr>text_of = EM_DASH, direction = ''flat''\<rparr>, j_endDate = JStr []\<rparr>"
  let ?cb = "\<lparr>c_name = JStr (lit ''B''), c_yes = 7 / 10, c_delta = JNull\<rparr>"
  let ?wb = "\<lparr>w_name = JStr (lit ''B''), w_yes = 7 / 10, w_delta = JNull,
       w_endDate = JStr []\<rparr>"
  have c: "contender_of sample_lib ?m = Inr ?c"
    by code_simp
  have y: "parse_yes sample_lib ?m = Inr 0"
    by code_simp
  have w: "web_contender_of sample_lib ?m = Inr ?w"
    by code_simp
  have cells: "contender_cells sample_lib 10 ?c = Inr ?cells"
    by code_simp
  have j: "contender_to_json sample_lib ?w = Inr ?j"
    by code_simp
  note th = price_empty_unless_positive [of ?c ?w 0 sample_lib 10 ?cells ?j ?m]
  note tb = price_empty_unless_positive [of ?cb ?wb 0 sample_lib 10 ?cells ?j ?m]
  have p1: "price_cell ?c = []"
    using th c y by blast
  have p2: "?cells ! 1 = Str (price_cell ?c)"
    using th cells by blast
  have p3: "price_field ?w = []"
    using th w y by blast
  have p4: "fmt_price_cents 0 = lit ''<1'' @ CENT"
    using th by simp
  have p5: "price_cell ?cb = fmt_price_cents (7 / 10)"
    using tb by simp
  have p6: "price_field ?wb = fmt_price_cents (7 / 10)"
    using tb by simp
  show ?thesis
    by (intro conjI c y p1 cells p2 w p3 j p4 p5 p6)
qed

section \<open>Properties of the cached fetch service\<close>

lemma get_events_hit:
  assumes "cache st limit = Some (ts, data)" and "now - ts < of_int ttl"
  shows "get_events L ttl run limit now st = (Inr data, st)"
  using assms by (simp add: get_events_def fresh_entry_def)

lemma get_events_miss:
  assumes "cache st limit = None \<or>
    (\<exists>ts data. cache st limit = Some (ts, data) \<and> \<not> now - ts < of_int ttl)"
  shows "get_events L ttl run limit now st =
    (case fetch_events L run limit of
       Inl e \<Rightarrow> (Inl e, st\<lparr>upstream_calls := upstream_calls st @ [limit]\<rparr>)
     | Inr fresh \<Rightarrow>
         (Inr fresh, st\<lparr>upstream_calls := upstream_calls st @ [limit],
                        cache := (cache st)(limit \<mapsto> (now, fresh))\<rparr>))"
  using assms by (auto simp: get_events_def fresh_entry_def Let_def split: sum.splits)

lemma get_events_other_keys:
  assumes "k \<noteq> limit"
  shows "cache (snd (get_events L ttl run limit now st)) k = cache st k"
  using assms
  by (auto simp: get_events_def fresh_entry_def Let_def split: sum.splits option.splits)

text \<open>
  Claim C2. A call that finds an entry for its limit younger than the TTL returns the
  entry's data, leaves the state as it is and so invokes nothing upstream. A call that
  finds no entry, or a stale one, invokes the market data client exactly once, returns
  what the client returned, and stores a returned result with the call's clock reading
  under its limit (when the client raises instead, the exception leaves the call and the
  map stays as it was). Entries under other limits are never touched.
\<close>

theorem get_events_cache:
  "(cache st limit = Some (ts, data) \<and> now - ts < of_int ttl \<longrightarrow>
      get_events L ttl run limit now st = (Inr data, st)) \<and>
   (cache st limit = None \<or>
      (\<exists>ts data. cache st limit = Some (ts, data) \<and> \<not> now - ts < of_int ttl) \<longrightarrow>
      upstream_calls (snd (get_events L ttl run limit now st)) = upstream_calls st @ [limit] \<and>
      fst (get_events L ttl run limit now st) = fetch_events L run limit \<and>
      (\<forall>fresh. fetch_events L run limit = Inr fresh \<longrightarrow>
         cache (snd (get_events L ttl run limit now st)) = (cache st)(limit \<mapsto> (now, fresh))) \<and>
      (\<forall>e. fetch_events L run limit = Inl e \<longrightarrow>
         cache (snd (get_events L ttl run limit now st)) = cache st)) \<and>
   (\<forall>k. k \<noteq> limit \<longrightarrow> cache (snd (get_events L ttl run limit now st)) k = cache st k)"
proof (intro conjI impI allI)
  assume "cache st limit = Some (ts, data) \<and> now - ts < of_int ttl"
  then show "get_events L ttl run limit now st = (Inr data, st)"
    by (simp add: get_events_hit)
next
  assume m: "cache st limit = None \<or>
      (\<exists>ts data. cache st limit = Some (ts, data) \<and> \<not> now - ts < of_int ttl)"
  note eq = get_events_miss [OF m, of L run]
  show "upstream_calls (snd (get_events L ttl run limit now st)) = upstream_calls st @ [limit]"
    unfolding eq by (simp split: sum.splits)
  show "fst (get_events L ttl run limit now st) = fetch_events L run limit"
    unfolding eq by (simp split: sum.splits)
  show "cache (snd (get_events L ttl run limit now st)) = (cache st)(limit \<mapsto> (now, fresh))"
    if "fetch_events L run limit = Inr fresh" for fresh
    unfolding eq using that by simp
  show "cache (snd (get_events L ttl run limit now st)) = cache st"
    if "fetch_events L run limit = Inl e" for e
    unfolding eq using that by simp
next
  fix k
  assume "k \<noteq> limit"
  then show "cache (snd (get_events L ttl run limit now st)) k = cache st k"
    by (rule get_events_other_keys)
qed

theorem get_events_cache_witness:
  "cache warm_state 10 = Some (100, [JObj []]) \<and> (110::real) - 100 < of_int 30 \<and>
   get_events sample_lib 30 (prints (lit ''[]'')) 10 110 warm_state = (Inr [JObj []], warm_state) \<and>
   \<not> (130::real) - 100 < of_int 30 \<and>
   fetch_events sample_lib (prints (lit ''[]'')) 10 = Inr [] \<and>
   upstream_calls (snd (get_events sample_lib 30 (prints (lit ''[]'')) 10 130 warm_state)) =
     upstream_calls warm_state @ [10] \<and>
   cache (snd (get_events sample_lib 30 (prints (lit ''[]'')) 10 130 warm_state)) =
     (cache warm_state)(10 \<mapsto> (130, [])) \<and>
   cache warm_state 20 = None \<and> (20::int) \<noteq> 10 \<and>
   cache (snd (get_events sample_lib 30 (prints (lit ''[]'')) 20 110 warm_state)) =
     (cache warm_state)(20 \<mapsto> (110, [])) \<and>
   cache (snd (get_events sample_lib 30 (prints (lit ''[]'')) 20 110 warm_state)) 10 =
     cache warm_state 10 \<and>
   fetch_events sample_lib (prints text_volume_stdout) 10 = Inl ValueError \<and>
   cache (snd (get_events sample_lib 30 (prints text_volume_stdout) 10 130 warm_state)) =
     cache warm_state"
proof -
  have c10: "cache warm_state 10 = Some (100, [JObj []])"
    and c20: "cache warm_state 20 = None"
    by (simp_all add: warm_state_def)
  have young: "(110::real) - 100 < of_int 30" and old: "\<not> (130::real) - 100 < of_int 30"
    by simp_all
  have f10: "fetch_events sample_lib (prints (lit ''[]'')) 10 = Inr []"
    by code_simp
  have f20: "fetch_events sample_lib (prints (lit ''[]'')) 20 = Inr []"
    by code_simp
  have fbad: "fetch_events sample_lib (prints text_volume_stdout) 10 = Inl ValueError"
    by code_simp
  have ne: "(20::int) \<noteq> 10"
    by simp
  have hit: "get_events sample_lib 30 (prints (lit ''[]'')) 10 110 warm_state =
      (Inr [JObj []], warm_state)"
    using get_events_cache [of warm_state 10 100 "[JObj []]" 110 30 sample_lib
        "prints (lit ''[]'')", THEN conjunct1] c10 young by blast
  have stale: "cache warm_state 10 = None \<or>
      (\<exists>ts data. cache warm_state 10 = Some (ts, data) \<and> \<not> (130::real) - ts < of_int 30)"
    using c10 old by blast
  note miss = get_events_cache [of warm_state 10 100 "[JObj []]" 130 30 sample_lib
        "prints (lit ''[]'')", THEN conjunct2, THEN conjunct1, THEN mp, OF stale]
  have calls: "upstream_calls (snd (get_events sample_lib 30 (prints (lit ''[]'')) 10 130
      warm_state)) = upstream_calls warm_state @ [10]"
    using miss by blast
  have stored: "cache (snd (get_events sample_lib 30 (prints (lit ''[]'')) 10 130 warm_state)) =
     (cache warm_state)(10 \<mapsto> (130, []))"
    using miss f10 by blast
  have absent: "cache warm_state 20 = None \<or>
      (\<exists>ts data. cache warm_state 20 = Some (ts, data) \<and> \<not> (110::real) - ts < of_int 30)"
    using c20 by blast
  note other = get_events_cache [of warm_state 20 100 "[JObj []]" 110 30 sample_lib
        "prints (lit ''[]'')"]
  have stored20: "cache (snd (get_events sample_lib 30 (prints (lit ''[]'')) 20 110 warm_state)) =
     (cache warm_state)(20 \<mapsto> (110, []))"
    using other [THEN conjunct2, THEN conjunct1, THEN mp, OF absent] f20 by blast
  have kept10: "cache (snd (get_events sample_lib 30 (prints (lit ''[]'')) 20 110 warm_state)) 10 =
     cache warm_state 10"
    using other [THEN conjunct2, THEN conjunct2] by simp
  have raised: "cache (snd (get_events sample_lib 30 (prints text_volume_stdout) 10 130
      warm_state)) = cache warm_state"
    using get_events_cache [of warm_state 10 100 "[JObj []]" 130 30 sample_lib
        "prints text_volume_stdout", THEN conjunct2, THEN conjunct1, THEN mp, OF stale] fbad
    by blast
  show ?thesis
    by (intro conjI c10 young hit old f10 calls stored c20 ne stored20 kept10 fbad raised)
qed

section \<open>Properties of the snapshot endpoint\<close>

text \<open>
  Claim C9 (amended). An absent limit is served as 10 and a limit between 1 and 100 is
  served unchanged; a limit outside that range, or one that is not an integer, is
  answered with a validation error, without any fetch and with the cache untouched: it
  is rejected, not clamped.
\<close>

theorem api_events_limit:
  "api_events L ttl run ts Absent now st = serve_events L ttl run ts 10 now st \<and>
   (1 \<le> n \<and> n \<le> 100 \<longrightarrow>
      api_events L ttl run ts (IntParam n) now st = serve_events L ttl run ts n now st) \<and>
   (n < 1 \<or> 100 < n \<longrightarrow>
      api_events L ttl run ts (IntParam n) now st = (Inl ValidationError, st)) \<and>
   api_events L ttl run ts NotAnInt now st = (Inl ValidationError, st)"
  by (auto simp: api_events_def validate_limit_def)

theorem api_events_limit_witness:
  "(1::int) \<le> 20 \<and> (20::int) \<le> 100 \<and>
   api_events sample_lib 30 (prints (lit ''[]'')) [] (IntParam 20) 0 empty_state =
     serve_events sample_lib 30 (prints (lit ''[]'')) [] 20 0 empty_state \<and>
   (100::int) < 500 \<and>
   api_events sample_lib 30 (prints (lit ''[]'')) [] (IntParam 500) 0 empty_state =
     (Inl ValidationError, empty_state) \<and>
   (0::int) < 1 \<and>
   api_events sample_lib 30 (prints (lit ''[]'')) [] (IntParam 0) 0 empty_state =
     (Inl ValidationError, empty_state)"
proof -
  have a: "(1::int) \<le> 20 \<and> (20::int) \<le> 100" and b: "(100::int) < 500" and c: "(0::int) < 1"
    by simp_all
  have w1: "api_events sample_lib 30 (prints (lit ''[]'')) [] (IntParam 20) 0 empty_state =
     serve_events sample_lib 30 (prints (lit ''[]'')) [] 20 0 empty_state"
    using api_events_limit [of sample_lib 30 "prints (lit ''[]'')" "[]" 0 empty_state 20] a
    by blast
  have w2: "api_events sample_lib 30 (prints (lit ''[]'')) [] (IntParam 500) 0 empty_state =
     (Inl ValidationError, empty_state)"
    using api_events_limit [of sample_lib 30 "prints (lit ''[]'')" "[]" 0 empty_state 500] b
    by blast
  have w3: "api_events sample_lib 30 (prints (lit ''[]'')) [] (IntParam 0) 0 empty_state =
     (Inl ValidationError, empty_state)"
    using api_events_limit [of sample_lib 30 "prints (lit ''[]'')" "[]" 0 empty_state 0] c
    by blast
  show ?thesis
    using a b c w1 w2 w3 by (intro conjI) simp_all
qed

theorem api_events_limit_counterexample:
  "api_events sample_lib 30 (prints (lit ''[]'')) [] (IntParam 500) 0 empty_state =
     (Inl ValidationError, empty_state) \<and>
   fst (serve_events sample_lib 30 (prints (lit ''[]'')) [] 100 0 empty_state) =
     Inr \<lparr>r_ts = [], r_ttl = 30, r_events = []\<rparr> \<and>
   api_events sample_lib 30 (prints (lit ''[]'')) [] (IntParam 500) 0 empty_state \<noteq>
     serve_events sample_lib 30 (prints (lit ''[]'')) [] 100 0 empty_state"
proof -
  have a: "api_events sample_lib 30 (prints (lit ''[]'')) [] (IntParam 500) 0 empty_state =
     (Inl ValidationError, empty_state)"
    by (simp add: api_events_def validate_limit_def)
  have f: "fetch_events sample_lib (prints (lit ''[]'')) 100 = Inr []"
    by code_simp
  have g: "get_events sample_lib 30 (prints (lit ''[]'')) 100 0 empty_state =
      (Inr [], empty_state\<lparr>upstream_calls := upstream_calls empty_state @ [100],
                          cache := (cache empty_state)(100 \<mapsto> (0, []))\<rparr>)"
    using get_events_miss [of empty_state 100 0 30 sample_lib "prints (lit ''[]'')"] f
    by (simp add: empty_state_def)
  have b: "fst (serve_events sample_lib 30 (prints (lit ''[]'')) [] 100 0 empty_state) =
     Inr \<lparr>r_ts = [], r_ttl = 30, r_events = []\<rparr>"
    by (simp add: serve_events_def g events_to_json_def)
  from a b have "fst (api_events sample_lib 30 (prints (lit ''[]'')) [] (IntParam 500) 0
      empty_state) \<noteq> fst (serve_events sample_lib 30 (prints (lit ''[]'')) [] 100 0 empty_state)"
    by simp
  then have c: "api_events sample_lib 30 (prints (lit ''[]'')) [] (IntParam 500) 0 empty_state \<noteq>
     serve_events sample_lib 30 (prints (lit ''[]'')) [] 100 0 empty_state"
    by auto
  show ?thesis
    by (intro conjI a b c)
qed


section \<open>Properties of concurrent callers\<close>
















end
